theory Spec2Isabelle
  imports Complex_Main
begin

section \<open>Request and response schemas (src/models/schemas.py)\<close>

text \<open>
  Every schema class is a pydantic \<open>BaseModel\<close>: calling the class validates the
  keyword arguments and either returns the object or raises a validation error. Each
  class is a record, and calling it is a function into \<open>error + record\<close>. A keyword
  argument that the caller may leave out has type \<open>'a option\<close> in the constructor:
  \<open>None\<close> is "not passed", \<open>Some v\<close> is "passed as v". A field declared
  \<open>Optional[T]\<close> holds \<open>'t option\<close>, so such an argument is an option of an option.

  Python's \<open>int\<close> is \<open>int\<close>. A \<open>float\<close> is read as the real number it denotes
  (\<open>real\<close>): the bounds of the schemas are comparisons with the constants 0, 1 and 5,
  which are exact. Arguments arrive with the type of their field: the coercion of
  other Python values is pydantic's, not this repository's.
\<close>

datatype constraint = GreaterThanEqual | LessThanEqual

datatype error =
  ValidationError string constraint
  | NoEligibleModelsError

text \<open>The values a \<open>Dict[str, Any]\<close> of this program holds.\<close>

datatype any = ANone | ABool bool | AInt int | AFloat real | AStr string

type_synonym dict = "(string \<times> any) list"

text \<open>The \<open>ge\<close> and \<open>le\<close> arguments of \<open>Field\<close>, checked in this order.\<close>

definition check_ge :: "string \<Rightarrow> 'a::linorder \<Rightarrow> 'a \<Rightarrow> error option" where
  "check_ge field bound v = (if v \<ge> bound then None else Some (ValidationError field GreaterThanEqual))"

definition check_le :: "string \<Rightarrow> 'a::linorder \<Rightarrow> 'a \<Rightarrow> error option" where
  "check_le field bound v = (if v \<le> bound then None else Some (ValidationError field LessThanEqual))"

definition check_ge_le :: "string \<Rightarrow> 'a::linorder \<Rightarrow> 'a \<Rightarrow> 'a \<Rightarrow> error option" where
  "check_ge_le field lo hi v =
     (case check_ge field lo v of
        Some e \<Rightarrow> Some e
      | None \<Rightarrow> check_le field hi v)"

subsection \<open>ChatRequest\<close>

record ChatRequest =
  query :: string
  user_id :: string
  context' :: "string option"
  user_tier :: "string option"

text \<open>
  \<open>context\<close> defaults to \<open>None\<close> and \<open>user_tier\<close> to \<open>"free"\<close>; neither field has
  a constraint.
\<close>

definition ChatRequest_init ::
  "string \<Rightarrow> string \<Rightarrow> string option option \<Rightarrow> string option option \<Rightarrow> error + ChatRequest" where
  "ChatRequest_init q u c t =
     Inr \<lparr>query = q, user_id = u,
          context' = (case c of None \<Rightarrow> None | Some v \<Rightarrow> v),
          user_tier = (case t of None \<Rightarrow> Some ''free'' | Some v \<Rightarrow> v)\<rparr>"

subsection \<open>QueryFeatures\<close>

record QueryFeatures =
  token_count :: int
  query_length :: int
  word_count :: int
  sentence_count :: int
  is_coding :: bool
  is_analytical :: bool
  is_creative :: bool
  has_code_block :: bool
  embedding_id :: "string option"

text \<open>The four counts are declared \<open>int\<close> with no \<open>Field\<close>: nothing is checked.\<close>

definition QueryFeatures_init ::
  "int \<Rightarrow> int \<Rightarrow> int \<Rightarrow> int \<Rightarrow> bool \<Rightarrow> bool \<Rightarrow> bool \<Rightarrow> bool \<Rightarrow> string option option
     \<Rightarrow> error + QueryFeatures" where
  "QueryFeatures_init tc ql wc sc cod ana cre blk emb =
     Inr \<lparr>token_count = tc, query_length = ql, word_count = wc, sentence_count = sc,
          is_coding = cod, is_analytical = ana, is_creative = cre, has_code_block = blk,
          embedding_id = (case emb of None \<Rightarrow> None | Some v \<Rightarrow> v)\<rparr>"

subsection \<open>RoutingDecision\<close>

record RoutingDecision =
  selected_model :: string
  reason :: string
  confidence :: real
  alternatives :: "dict list option"
  fallback :: bool

text \<open>
  \<open>confidence: float = Field(ge=0.0, le=1.0)\<close>; \<open>alternatives\<close> defaults to
  \<open>None\<close> and \<open>fallback\<close> to \<open>False\<close>.
\<close>

definition RoutingDecision_init ::
  "string \<Rightarrow> string \<Rightarrow> real \<Rightarrow> dict list option option \<Rightarrow> bool option \<Rightarrow> error + RoutingDecision" where
  "RoutingDecision_init m r c alts fb =
     (case check_ge_le ''confidence'' 0 1 c of
        Some e \<Rightarrow> Inl e
      | None \<Rightarrow>
          Inr \<lparr>selected_model = m, reason = r, confidence = c,
               alternatives = (case alts of None \<Rightarrow> None | Some v \<Rightarrow> v),
               fallback = (case fb of None \<Rightarrow> False | Some v \<Rightarrow> v)\<rparr>)"

subsection \<open>FeedbackRequest\<close>

record FeedbackRequest =
  request_id :: string
  rating :: int
  comment :: "string option"

text \<open>\<open>rating: int = Field(ge=1, le=5)\<close>; \<open>comment\<close> defaults to \<open>None\<close>.\<close>

definition FeedbackRequest_init ::
  "string \<Rightarrow> int \<Rightarrow> string option option \<Rightarrow> error + FeedbackRequest" where
  "FeedbackRequest_init rid r c =
     (case check_ge_le ''rating'' 1 5 r of
        Some e \<Rightarrow> Inl e
      | None \<Rightarrow>
          Inr \<lparr>request_id = rid, rating = r,
               comment = (case c of None \<Rightarrow> None | Some v \<Rightarrow> v)\<rparr>)"

subsection \<open>ModelCandidate\<close>

record ModelCandidate =
  model_name :: string
  quality_score :: real
  cost_score :: real
  latency_score :: real
  overall_score :: real
  metadata :: "dict option"

text \<open>The four scores are declared \<open>float\<close> with no \<open>Field\<close>: nothing is checked.\<close>

definition ModelCandidate_init ::
  "string \<Rightarrow> real \<Rightarrow> real \<Rightarrow> real \<Rightarrow> real \<Rightarrow> dict option option \<Rightarrow> error + ModelCandidate" where
  "ModelCandidate_init n q c l ov md =
     Inr \<lparr>model_name = n, quality_score = q, cost_score = c, latency_score = l,
          overall_score = ov,
          metadata = (case md of None \<Rightarrow> None | Some v \<Rightarrow> v)\<rparr>"

subsection \<open>CacheEntry\<close>

text \<open>A \<open>datetime\<close> is the number of microseconds since the epoch.\<close>

type_synonym datetime = int

record CacheEntry =
  query_hash :: string
  response :: string
  model_used :: string
  timestamp :: datetime
  hit_count :: int

text \<open>\<open>hit_count: int = 0\<close>.\<close>

definition CacheEntry_init ::
  "string \<Rightarrow> string \<Rightarrow> string \<Rightarrow> datetime \<Rightarrow> int option \<Rightarrow> error + CacheEntry" where
  "CacheEntry_init h r m ts hc =
     Inr \<lparr>query_hash = h, response = r, model_used = m, timestamp = ts,
          hit_count = (case hc of None \<Rightarrow> 0 | Some v \<Rightarrow> v)\<rparr>"

section \<open>Database tables (src/models/database.py)\<close>

text \<open>
  \<open>ModelPerformanceDB\<close> is the table \<open>model_performance\<close>. A row that is
  inserted with only its model name takes the column defaults: both counters 0, both
  totals 0.0, no rating, and the time of the insertion. The primary key is assigned by
  the database, so it is \<open>None\<close> until then. The column \<open>model_name\<close> is the field
  \<open>perf_model_name\<close> here, \<open>model_name\<close> being the field of \<open>ModelCandidate\<close>.
\<close>

record ModelPerformanceDB =
  id' :: "int option"
  perf_model_name :: string
  total_requests :: int
  success_count :: int
  total_latency_ms :: real
  total_cost :: real
  avg_rating :: "real option"
  last_updated :: datetime

definition ModelPerformanceDB_init :: "string \<Rightarrow> datetime \<Rightarrow> ModelPerformanceDB" where
  "ModelPerformanceDB_init name now =
     \<lparr>id' = None, perf_model_name = name, total_requests = 0, success_count = 0,
      total_latency_ms = 0, total_cost = 0, avg_rating = None, last_updated = now\<rparr>"

section \<open>Performance Tracker\<close>

text \<open>
  The repository has the table \<open>ModelPerformanceDB\<close> and no function that updates
  it: the tracker's operations are taken from section 4.2 of the specification. The
  tracker holds one record per model name.
\<close>

type_synonym tracker = "string \<rightharpoonup> ModelPerformanceDB"

text \<open>
  Modelled from the spec: the update that \<open>recordOutcome(model_name, latency_ms, cost,
  success)\<close> applies to the model's record, which is not in the repository. It
  "increments total_requests, conditionally success_count, adds to
  total_latency_ms/total_cost".
\<close>

definition record_outcome_row :: "real \<Rightarrow> real \<Rightarrow> bool \<Rightarrow> ModelPerformanceDB \<Rightarrow> ModelPerformanceDB" where
  "record_outcome_row latency_ms cost success row =
     row\<lparr>total_requests := total_requests row + 1,
         success_count := (if success then success_count row + 1 else success_count row),
         total_latency_ms := total_latency_ms row + latency_ms,
         total_cost := total_cost row + cost\<rparr>"

text \<open>
  Modelled from the spec: \<open>recordOutcome\<close>, which is not in the repository. The
  record of the model is updated in place; a model that has no record yet gets one in
  its initial state (the column defaults of the table) first.
\<close>

definition recordOutcome :: "string \<Rightarrow> real \<Rightarrow> real \<Rightarrow> bool \<Rightarrow> datetime \<Rightarrow> tracker \<Rightarrow> tracker" where
  "recordOutcome name latency_ms cost success now t =
     t(name \<mapsto> record_outcome_row latency_ms cost success
                  (case t name of None \<Rightarrow> ModelPerformanceDB_init name now | Some row \<Rightarrow> row))"

text \<open>
  One call of \<open>recordOutcome\<close>, as data: model name, latency, cost, success, and the
  time of the call. \<open>recordOutcome_trace\<close> runs a sequence of calls and returns the
  tracker as it is after each of them.
\<close>

type_synonym outcome_call = "string \<times> real \<times> real \<times> bool \<times> datetime"

fun recordOutcome_call :: "outcome_call \<Rightarrow> tracker \<Rightarrow> tracker" where
  "recordOutcome_call (name, latency_ms, cost, success, now) t =
     recordOutcome name latency_ms cost success now t"

fun recordOutcome_trace :: "outcome_call list \<Rightarrow> tracker \<Rightarrow> tracker list" where
  "recordOutcome_trace [] t = []"
| "recordOutcome_trace (c # cs) t =
     recordOutcome_call c t # recordOutcome_trace cs (recordOutcome_call c t)"

section \<open>Decision Engine\<close>

text \<open>
  The repository has the schemas the engine reads and writes (\<open>QueryFeatures\<close>,
  \<open>ModelCandidate\<close>, \<open>RoutingDecision\<close>, \<open>CacheEntry\<close>) and no function
  \<open>route\<close>: the engine is taken from sections 4.3 and 4.4 of the specification.
\<close>

text \<open>Modelled from the spec: the user tiers "free/pro/enterprise" of section 4.4.\<close>

datatype tier = Free | Pro | Enterprise

text \<open>Modelled from the spec: one row of the weight table, a weight per objective.\<close>

record weights =
  quality :: real
  cost :: real
  latency :: real

text \<open>
  Modelled from the spec: the weight table, "{free: {quality:0.2, cost:0.5,
  latency:0.3}, pro: {quality:0.5, cost:0.2, latency:0.3}, enterprise: {quality:0.7,
  cost:0.1, latency:0.2}}".
\<close>

fun tier_weight :: "tier \<Rightarrow> weights" where
  "tier_weight Free = \<lparr>quality = 2/10, cost = 5/10, latency = 3/10\<rparr>"
| "tier_weight Pro = \<lparr>quality = 5/10, cost = 2/10, latency = 3/10\<rparr>"
| "tier_weight Enterprise = \<lparr>quality = 7/10, cost = 1/10, latency = 2/10\<rparr>"

text \<open>
  Modelled from the spec: what the specification leaves to configuration and to
  external collaborators, as parameters of the engine. \<open>fingerprint\<close> is the
  normalisation and hash of query and context; \<open>extract'\<close> is the Feature Extractor
  (\<open>extract\<close>: pure, never fails); \<open>derive_quality\<close>, \<open>derive_cost\<close> and
  \<open>derive_latency\<close> blend the static data of a model with its tracker record and
  the similarity signal (\<open>'sim\<close> is the Similarity Oracle's result), before
  normalisation; \<open>min_quality\<close> is the minimum acceptable quality;
  \<open>fallback_model\<close> is the tier's designated fallback, \<open>fallback_confidence\<close> the
  confidence reported with it; \<open>explain\<close> writes the reason of a scored pick.
\<close>

record 'sim engine_config =
  fingerprint :: "string \<Rightarrow> string option \<Rightarrow> string"
  extract' :: "string \<Rightarrow> QueryFeatures"
  derive_quality :: "QueryFeatures \<Rightarrow> ModelPerformanceDB option \<Rightarrow> 'sim option \<Rightarrow> string \<Rightarrow> real"
  derive_cost :: "ModelPerformanceDB option \<Rightarrow> string \<Rightarrow> real"
  derive_latency :: "ModelPerformanceDB option \<Rightarrow> string \<Rightarrow> real"
  min_quality :: real
  fallback_model :: "tier \<Rightarrow> string"
  fallback_confidence :: real
  explain :: "tier \<Rightarrow> ModelCandidate \<Rightarrow> string"

text \<open>
  Modelled from the spec: the state a call of \<open>route\<close> can change. \<open>cache\<close> is the
  Response Cache's entry table, keyed by fingerprint; \<open>scoring_calls\<close> is the
  "scoring-call counter" of section 8, one count per candidate scored.
\<close>

record engine_state =
  cache :: "string \<rightharpoonup> CacheEntry"
  scoring_calls :: nat

text \<open>
  Modelled from the spec: \<open>lookup(fingerprint) -> CacheEntry | miss\<close>, "on hit,
  increments hit_count and refreshes nothing else".
\<close>

definition lookup :: "string \<Rightarrow> engine_state \<Rightarrow> CacheEntry option \<times> engine_state" where
  "lookup fp st =
     (case cache st fp of
        None \<Rightarrow> (None, st)
      | Some e \<Rightarrow>
          (let e' = e\<lparr>hit_count := hit_count e + 1\<rparr>
           in (Some e', st\<lparr>cache := (cache st)(fp \<mapsto> e')\<rparr>)))"

text \<open>
  Modelled from the spec: "min-max normalization; if all candidates are equal, all
  receive 0.5 to avoid division by zero".
\<close>

definition min_max_normalize :: "real list \<Rightarrow> real list" where
  "min_max_normalize xs =
     (case xs of
        [] \<Rightarrow> []
      | x # rest \<Rightarrow>
          (let lo = fold min rest x; hi = fold max rest x
           in if hi = lo then map (\<lambda>_. 1/2) xs
              else map (\<lambda>v. (v - lo) / (hi - lo)) xs))"

text \<open>
  Modelled from the spec: step 3, "overall_score = \<Sigma>(tier_weight[objective] \<times>
  objective_score)".
\<close>

definition overall :: "weights \<Rightarrow> real \<Rightarrow> real \<Rightarrow> real \<Rightarrow> real" where
  "overall w q c l = quality w * q + cost w * c + latency w * l"

text \<open>
  Modelled from the spec: step 2 and step 3 for the whole candidate set, in
  declaration order. Cost and latency are normalised across the set.
\<close>

definition score_candidates ::
  "'sim engine_config \<Rightarrow> tier \<Rightarrow> QueryFeatures \<Rightarrow> tracker \<Rightarrow> 'sim option \<Rightarrow> string list
     \<Rightarrow> ModelCandidate list" where
  "score_candidates cfg tr feats t sim names =
     (let qs = map (\<lambda>n. derive_quality cfg feats (t n) sim n) names;
          cs = min_max_normalize (map (\<lambda>n. derive_cost cfg (t n) n) names);
          ls = min_max_normalize (map (\<lambda>n. derive_latency cfg (t n) n) names)
      in map (\<lambda>(n, q, c, l).
                \<lparr>model_name = n, quality_score = q, cost_score = c, latency_score = l,
                 overall_score = overall (tier_weight tr) q c l, metadata = None\<rparr>)
             (zip names (zip qs (zip cs ls))))"

text \<open>
  Modelled from the spec: step 4, the position of "the candidate with the maximum
  overall_score; ties broken deterministically by candidate declaration order (first
  listed wins)". A later score replaces an earlier one only when it is strictly
  greater.
\<close>

fun best_index :: "real list \<Rightarrow> nat" where
  "best_index [] = 0"
| "best_index [x] = 0"
| "best_index (x # y # ys) =
     (let j = best_index (y # ys) in if (y # ys) ! j > x then Suc j else 0)"

text \<open>
  Modelled from the spec: step 5, "min(1.0, (winner - runnerUp) / winner), clamped to
  [0,1]". The specification gives no value for a winner whose score is 0, where the
  quotient does not exist; the confidence is 0 there.
\<close>

definition margin_confidence :: "real \<Rightarrow> real \<Rightarrow> real" where
  "margin_confidence winner runner_up =
     (if winner = 0 then 0 else max 0 (min 1 ((winner - runner_up) / winner)))"

text \<open>Modelled from the spec: a candidate as an entry of \<open>alternatives\<close>.\<close>

definition candidate_dict :: "ModelCandidate \<Rightarrow> dict" where
  "candidate_dict c =
     [(''model_name'', AStr (model_name c)),
      (''quality_score'', AFloat (quality_score c)),
      (''cost_score'', AFloat (cost_score c)),
      (''latency_score'', AFloat (latency_score c)),
      (''overall_score'', AFloat (overall_score c))]"

text \<open>
  Modelled from the spec: steps 4 to 6 on the scored candidates. When every
  candidate's quality_score is below the threshold the decision is the tier's fallback
  model with fallback = true and reason "low_confidence_fallback". Otherwise the
  winner is the first candidate of maximal overall_score, the other candidates are
  the alternatives, ranked by falling overall_score (declaration order among equals),
  and the confidence is the margin to the runner-up, or 1.0 with a single candidate.
  The decision is constructed as a \<open>RoutingDecision\<close>, so it is validated.
\<close>

definition decide ::
  "'sim engine_config \<Rightarrow> tier \<Rightarrow> ModelCandidate list \<Rightarrow> error + RoutingDecision" where
  "decide cfg tr scored =
     (if list_all (\<lambda>c. quality_score c < min_quality cfg) scored
      then RoutingDecision_init (fallback_model cfg tr) ''low_confidence_fallback''
             (fallback_confidence cfg) None (Some True)
      else
        (let i = best_index (map overall_score scored);
             winner = scored ! i;
             others = take i scored @ drop (Suc i) scored;
             ranked = sort_key (\<lambda>c. - overall_score c) others;
             conf = (case ranked of
                       [] \<Rightarrow> 1
                     | r # _ \<Rightarrow> margin_confidence (overall_score winner) (overall_score r))
         in RoutingDecision_init (model_name winner) (explain cfg tr winner) conf
              (Some (Some (map candidate_dict ranked))) (Some False)))"

text \<open>
  Modelled from the spec: \<open>route\<close>, which is not in the repository. Its arguments
  are the configuration, the tracker, the Similarity Oracle's result if any, the
  query, the user, the tier, the context if any, the eligible candidates in
  declaration order, and the state; it returns the decision or the error, and the
  state. The engine's inputs include a candidate set of at least one model, and "the
  engine fails with NoEligibleModelsError if empty": an empty set is refused before
  the algorithm starts. Step 1 of the algorithm is the cache lookup; a hit returns the
  cached model with reason "cache_hit" and confidence 1.0 and scores nothing. On a miss
  every candidate is scored and \<open>decide\<close> picks.
\<close>

definition route ::
  "'sim engine_config \<Rightarrow> tracker \<Rightarrow> 'sim option \<Rightarrow> string \<Rightarrow> string \<Rightarrow> tier \<Rightarrow> string option
     \<Rightarrow> string list \<Rightarrow> engine_state \<Rightarrow> (error + RoutingDecision) \<times> engine_state" where
  "route cfg t sim q user tr ctx candidates st =
     (if candidates = [] then (Inl NoEligibleModelsError, st)
      else
        (case lookup (fingerprint cfg q ctx) st of
           (Some e, st') \<Rightarrow>
             (RoutingDecision_init (model_used e) ''cache_hit'' 1 None (Some False), st')
         | (None, st') \<Rightarrow>
             (let scored = score_candidates cfg tr (extract' cfg q) t sim candidates
              in (decide cfg tr scored,
                  st'\<lparr>scoring_calls := scoring_calls st' + length candidates\<rparr>))))"

subsection \<open>A configuration, three states and a tracker to run the engine on\<close>

text \<open>
  The fingerprint is the query itself. modelA has quality 0.9, cost 0.3 and latency
  0.7; every other model has quality 0.5, cost 0.9 and latency 0.9, so two models
  other than modelA tie.
\<close>

definition example_config :: "unit engine_config" where
  "example_config =
     \<lparr>fingerprint = (\<lambda>q c. q),
      extract' = (\<lambda>q. \<lparr>token_count = int (length q), query_length = int (length q),
                        word_count = 1, sentence_count = 1,
                        is_coding = False, is_analytical = False, is_creative = False,
                        has_code_block = False, embedding_id = None\<rparr>),
      derive_quality = (\<lambda>f r s n. if n = ''modelA'' then 9/10 else 1/2),
      derive_cost = (\<lambda>r n. if n = ''modelA'' then 3/10 else 9/10),
      derive_latency = (\<lambda>r n. if n = ''modelA'' then 7/10 else 9/10),
      min_quality = 1/10,
      fallback_model = (\<lambda>_. ''modelA''),
      fallback_confidence = 0,
      explain = (\<lambda>_ _. ''best'')\<rparr>"

definition empty_state :: engine_state where
  "empty_state = \<lparr>cache = Map.empty, scoring_calls = 0\<rparr>"

definition cached_state :: engine_state where
  "cached_state =
     \<lparr>cache = [''hello'' \<mapsto> \<lparr>query_hash = ''hello'', response = ''R'', model_used = ''modelA'',
                              timestamp = 0, hit_count = 0\<rparr>],
      scoring_calls = 0\<rparr>"

text \<open>
  \<open>later_state\<close> holds the entry of \<open>cached_state\<close> after seven hits, a second
  entry, and a scoring counter that has moved; \<open>other_tracker\<close> has a record for a
  model that is no candidate in the runs below.
\<close>

definition later_state :: engine_state where
  "later_state =
     \<lparr>cache = [''hello'' \<mapsto> \<lparr>query_hash = ''hello'', response = ''R'', model_used = ''modelA'',
                              timestamp = 0, hit_count = 7\<rparr>,
               ''bye'' \<mapsto> \<lparr>query_hash = ''bye'', response = ''S'', model_used = ''modelB'',
                            timestamp = 5, hit_count = 2\<rparr>],
      scoring_calls = 12\<rparr>"

definition other_tracker :: tracker where
  "other_tracker =
     [''modelZ'' \<mapsto> \<lparr>id' = Some 1, perf_model_name = ''modelZ'', total_requests = 4,
                       success_count = 3, total_latency_ms = 800, total_cost = 1/10,
                       avg_rating = Some 4, last_updated = 9\<rparr>]"

section \<open>Properties of the schemas\<close>

text \<open>
  C4. Constructing a FeedbackRequest with a rating below 1 or above 5 raises a
  validation error, so no FeedbackRequest carrying that rating exists to be handed on;
  with a rating from 1 to 5 the construction succeeds and the object holds the rating
  it was given.
\<close>

theorem FeedbackRequest_rating_validated:
  "(r < 1 \<or> 5 < r \<longrightarrow>
      (\<exists>c. FeedbackRequest_init rid r cm = Inl (ValidationError ''rating'' c))) \<and>
   (1 \<le> r \<and> r \<le> 5 \<longrightarrow>
      (\<exists>f. FeedbackRequest_init rid r cm = Inr f \<and> rating f = r \<and> request_id f = rid))"
  by (auto simp: FeedbackRequest_init_def check_ge_le_def check_ge_def check_le_def)

theorem FeedbackRequest_rating_validated_witness:
  "FeedbackRequest_init ''req-1'' 0 None = Inl (ValidationError ''rating'' GreaterThanEqual) \<and>
   FeedbackRequest_init ''req-1'' 6 None = Inl (ValidationError ''rating'' LessThanEqual) \<and>
   FeedbackRequest_init ''req-1'' 5 None = Inr \<lparr>request_id = ''req-1'', rating = 5, comment = None\<rparr>"
  using FeedbackRequest_rating_validated [of 0 "''req-1''" None]
    FeedbackRequest_rating_validated [of 6 "''req-1''" None]
    FeedbackRequest_rating_validated [of 5 "''req-1''" None]
  by (simp add: FeedbackRequest_init_def check_ge_le_def check_ge_def check_le_def)

text \<open>
  C5. A RoutingDecision that was constructed has a confidence between 0 and 1, both
  included; a construction with a confidence below 0 or above 1 raises a validation
  error.
\<close>

theorem RoutingDecision_confidence_validated:
  "(RoutingDecision_init m rs c alts fb = Inr d \<longrightarrow> 0 \<le> confidence d \<and> confidence d \<le> 1) \<and>
   (c < 0 \<or> 1 < c \<longrightarrow>
      (\<exists>k. RoutingDecision_init m rs c alts fb = Inl (ValidationError ''confidence'' k)))"
  by (auto simp: RoutingDecision_init_def check_ge_le_def check_ge_def check_le_def)

theorem RoutingDecision_confidence_validated_witness:
  "RoutingDecision_init ''gpt'' ''best'' (1/2) None None =
     Inr \<lparr>selected_model = ''gpt'', reason = ''best'', confidence = 1/2,
          alternatives = None, fallback = False\<rparr> \<and>
   RoutingDecision_init ''gpt'' ''best'' (-1/10) None None =
     Inl (ValidationError ''confidence'' GreaterThanEqual) \<and>
   RoutingDecision_init ''gpt'' ''best'' (11/10) None None =
     Inl (ValidationError ''confidence'' LessThanEqual)"
  using RoutingDecision_confidence_validated [of "''gpt''" "''best''" "1/2" None None
      "\<lparr>selected_model = ''gpt'', reason = ''best'', confidence = 1/2,
        alternatives = None, fallback = False\<rparr>"]
    RoutingDecision_confidence_validated [of "''gpt''" "''best''" "-1/10" None None]
    RoutingDecision_confidence_validated [of "''gpt''" "''best''" "11/10" None None]
  by (simp add: RoutingDecision_init_def check_ge_le_def check_ge_def check_le_def)

text \<open>
  C6, as the claim states it, fails: a QueryFeatures with a negative count is
  constructed, not rejected.
\<close>

theorem QueryFeatures_negative_accepted:
  "QueryFeatures_init (-1) (-7) (-2) (-3) False False False False None =
     Inr \<lparr>token_count = -1, query_length = -7, word_count = -2, sentence_count = -3,
          is_coding = False, is_analytical = False, is_creative = False,
          has_code_block = False, embedding_id = None\<rparr>"
  by (simp add: QueryFeatures_init_def)

text \<open>
  C6, amended. Constructing a QueryFeatures from integer counts never fails, whatever
  their sign, and the object holds the four counts unchanged.
\<close>

theorem QueryFeatures_counts_unchecked:
  "\<exists>f. QueryFeatures_init tc ql wc sc cod ana cre blk emb = Inr f \<and>
       token_count f = tc \<and> query_length f = ql \<and> word_count f = wc \<and> sentence_count f = sc"
  by (simp add: QueryFeatures_init_def)

text \<open>
  C7, as the claim states it, fails: a ModelCandidate with scores outside [0,1] is
  constructed, not rejected.
\<close>

theorem ModelCandidate_out_of_range_accepted:
  "ModelCandidate_init ''m'' 2 (-1) (3/2) 0 None =
     Inr \<lparr>model_name = ''m'', quality_score = 2, cost_score = -1, latency_score = 3/2,
          overall_score = 0, metadata = None\<rparr>"
  by (simp add: ModelCandidate_init_def)

text \<open>
  C7, amended. Constructing a ModelCandidate from real scores never fails, whatever
  their range, and the object holds quality_score, cost_score and latency_score
  unchanged.
\<close>

theorem ModelCandidate_scores_unchecked:
  "\<exists>mc. ModelCandidate_init n q c l ov md = Inr mc \<and>
        quality_score mc = q \<and> cost_score mc = c \<and> latency_score mc = l"
  by (simp add: ModelCandidate_init_def)

text \<open>
  C9. A ChatRequest constructed without a user_tier argument has user_tier "free".
\<close>

theorem ChatRequest_default_tier:
  "\<exists>rq. ChatRequest_init q u c None = Inr rq \<and> user_tier rq = Some ''free''"
  by (simp add: ChatRequest_init_def)

text \<open>
  C10. A CacheEntry constructed without a hit_count argument has hit_count 0.
\<close>

theorem CacheEntry_default_hit_count:
  "\<exists>e. CacheEntry_init h r m ts None = Inr e \<and> hit_count e = 0"
  by (simp add: CacheEntry_init_def)

section \<open>Properties of the Performance Tracker\<close>

lemma record_outcome_row_counts:
  "success_count row \<le> total_requests row \<Longrightarrow>
   success_count (record_outcome_row l c s row) \<le> total_requests (record_outcome_row l c s row)"
  by (simp add: record_outcome_row_def)

lemma ModelPerformanceDB_init_counts:
  "success_count (ModelPerformanceDB_init name now) \<le> total_requests (ModelPerformanceDB_init name now)"
  by (simp add: ModelPerformanceDB_init_def)

lemma recordOutcome_call_counts:
  assumes "\<forall>row \<in> ran t. success_count row \<le> total_requests row"
  shows "\<forall>row \<in> ran (recordOutcome_call c t). success_count row \<le> total_requests row"
proof
  fix row
  assume in_ran: "row \<in> ran (recordOutcome_call c t)"
  obtain name l k s now where c: "c = (name, l, k, s, now)"
    by (cases c) auto
  from in_ran obtain m where m: "recordOutcome_call c t m = Some row"
    by (auto simp: ran_def)
  show "success_count row \<le> total_requests row"
  proof (cases "m = name")
    case False
    with m c have "t m = Some row"
      by (simp add: recordOutcome_def)
    then have "row \<in> ran t"
      by (auto simp: ran_def)
    with assms show ?thesis
      by blast
  next
    case True
    let ?old = "case t name of None \<Rightarrow> ModelPerformanceDB_init name now | Some r \<Rightarrow> r"
    from True m c have row: "row = record_outcome_row l k s ?old"
      by (simp add: recordOutcome_def)
    have "success_count ?old \<le> total_requests ?old"
    proof (cases "t name")
      case None
      then show ?thesis
        by (simp add: ModelPerformanceDB_init_counts)
    next
      case (Some r)
      then have "r \<in> ran t"
        by (auto simp: ran_def)
      with assms Some show ?thesis
        by auto
    qed
    with row show ?thesis
      by (simp add: record_outcome_row_counts)
  qed
qed

lemma recordOutcome_trace_counts:
  "\<forall>row \<in> ran t. success_count row \<le> total_requests row \<Longrightarrow>
   \<forall>t' \<in> set (recordOutcome_trace cs t). \<forall>row \<in> ran t'. success_count row \<le> total_requests row"
proof (induction cs arbitrary: t)
  case Nil
  then show ?case by simp
next
  case (Cons c cs)
  have step: "\<forall>row \<in> ran (recordOutcome_call c t). success_count row \<le> total_requests row"
    using Cons.prems by (rule recordOutcome_call_counts)
  from Cons.IH [OF step] step show ?case
    by simp
qed

text \<open>
  C8. Starting from a tracker with no records, so that every record starts in its
  initial state (total_requests = 0, success_count = 0), after every call of any
  sequence of recordOutcome calls every record has success_count \<le> total_requests.
\<close>

theorem recordOutcome_success_le_total:
  "\<forall>t \<in> set (recordOutcome_trace calls Map.empty).
     \<forall>row \<in> ran t. success_count row \<le> total_requests row"
  by (rule recordOutcome_trace_counts) simp

theorem recordOutcome_success_le_total_witness:
  "map (\<lambda>t. map_option (\<lambda>row. (success_count row, total_requests row)) (t ''gpt''))
     (recordOutcome_trace
        [(''gpt'', 120, 1/100, True, 1), (''gpt'', 300, 2/100, False, 2), (''gpt'', 80, 1/100, True, 3)]
        Map.empty)
   = [Some (1, 1), Some (1, 2), Some (2, 3)]"
  using recordOutcome_success_le_total
    [of "[(''gpt'', 120, 1/100, True, 1), (''gpt'', 300, 2/100, False, 2), (''gpt'', 80, 1/100, True, 3)]"]
  by (simp add: recordOutcome_def record_outcome_row_def ModelPerformanceDB_init_def)

section \<open>Properties of the Decision Engine\<close>

subsection \<open>Selection, confidence and construction\<close>

lemma best_index_less: "xs \<noteq> [] \<Longrightarrow> best_index xs < length xs"
  by (induction xs rule: best_index.induct) (auto simp: Let_def)

lemma best_index_max: "j < length xs \<Longrightarrow> xs ! j \<le> xs ! best_index xs"
proof (induction xs arbitrary: j rule: best_index.induct)
  case 1
  then show ?case by simp
next
  case (2 x)
  then show ?case by simp
next
  case (3 x y ys)
  show ?case
  proof (cases j)
    case 0
    then show ?thesis by (simp add: Let_def)
  next
    case (Suc k)
    with "3.prems" have "k < length (y # ys)" by simp
    from "3.IH" [OF this] have "(y # ys) ! k \<le> (y # ys) ! best_index (y # ys)" .
    with Suc show ?thesis by (auto simp: Let_def)
  qed
qed

lemma best_index_first: "j < best_index xs \<Longrightarrow> xs ! j < xs ! best_index xs"
proof (induction xs arbitrary: j rule: best_index.induct)
  case 1
  then show ?case by simp
next
  case (2 x)
  then show ?case by simp
next
  case (3 x y ys)
  let ?b = "best_index (y # ys)"
  show ?case
  proof (cases "(y # ys) ! ?b > x")
    case False
    with "3.prems" show ?thesis by (simp add: Let_def)
  next
    case True
    then have bi: "best_index (x # y # ys) = Suc ?b" by (simp add: Let_def)
    show ?thesis
    proof (cases j)
      case 0
      with True bi show ?thesis by simp
    next
      case (Suc k)
      with "3.prems" bi have "k < ?b" by simp
      from "3.IH" [OF this] Suc bi show ?thesis by simp
    qed
  qed
qed

lemma margin_confidence_range: "0 \<le> margin_confidence w r \<and> margin_confidence w r \<le> 1"
  by (simp add: margin_confidence_def)

lemma RoutingDecision_init_ok:
  "0 \<le> c \<Longrightarrow> c \<le> 1 \<Longrightarrow>
   RoutingDecision_init m rs c alts fb =
     Inr \<lparr>selected_model = m, reason = rs, confidence = c,
          alternatives = (case alts of None \<Rightarrow> None | Some v \<Rightarrow> v),
          fallback = (case fb of None \<Rightarrow> False | Some v \<Rightarrow> v)\<rparr>"
  by (simp add: RoutingDecision_init_def check_ge_le_def check_ge_def check_le_def)

lemma length_min_max_normalize: "length (min_max_normalize xs) = length xs"
  by (simp add: min_max_normalize_def Let_def split: list.splits)

lemma length_score_candidates: "length (score_candidates cfg tr feats t sim names) = length names"
  by (simp add: score_candidates_def Let_def length_min_max_normalize)

lemma decide_scored:
  assumes "\<not> list_all (\<lambda>c. quality_score c < min_quality cfg) scored"
  shows "\<exists>d. decide cfg tr scored = Inr d \<and> fallback d = False \<and>
             selected_model d = model_name (scored ! best_index (map overall_score scored))"
proof -
  let ?i = "best_index (map overall_score scored)"
  let ?ranked = "sort_key (\<lambda>c. - overall_score c) (take ?i scored @ drop (Suc ?i) scored)"
  let ?conf = "case ?ranked of [] \<Rightarrow> 1
     | r # _ \<Rightarrow> margin_confidence (overall_score (scored ! ?i)) (overall_score r)"
  have "0 \<le> ?conf \<and> ?conf \<le> 1"
    by (cases ?ranked) (simp_all add: margin_confidence_range)
  then have "RoutingDecision_init (model_name (scored ! ?i)) (explain cfg tr (scored ! ?i)) ?conf
      (Some (Some (map candidate_dict ?ranked))) (Some False) =
     Inr \<lparr>selected_model = model_name (scored ! ?i), reason = explain cfg tr (scored ! ?i),
          confidence = ?conf, alternatives = Some (map candidate_dict ?ranked), fallback = False\<rparr>"
    by (simp add: RoutingDecision_init_ok)
  with assms show ?thesis
    by (simp add: decide_def Let_def)
qed

lemma route_empty: "route cfg t sim q u tr ctx [] st = (Inl NoEligibleModelsError, st)"
  by (simp add: route_def)

lemma route_hit:
  assumes "cands \<noteq> []" and "cache st (fingerprint cfg q ctx) = Some e"
  shows "route cfg t sim q u tr ctx cands st =
     (Inr \<lparr>selected_model = model_used e, reason = ''cache_hit'', confidence = 1,
           alternatives = None, fallback = False\<rparr>,
      st\<lparr>cache := (cache st)(fingerprint cfg q ctx \<mapsto> e\<lparr>hit_count := hit_count e + 1\<rparr>)\<rparr>)"
  using assms by (simp add: route_def lookup_def Let_def RoutingDecision_init_ok)

lemma route_miss:
  assumes "cands \<noteq> []" and "cache st (fingerprint cfg q ctx) = None"
  shows "route cfg t sim q u tr ctx cands st =
     (decide cfg tr (score_candidates cfg tr (extract' cfg q) t sim cands),
      st\<lparr>scoring_calls := scoring_calls st + length cands\<rparr>)"
  using assms by (simp add: route_def lookup_def Let_def)

lemma route_again:
  "fst (route cfg t sim q u tr ctx cands (snd (route cfg t sim q u tr ctx cands st))) =
   fst (route cfg t sim q u tr ctx cands st)"
proof (cases "cands = []")
  case True
  then show ?thesis by (simp add: route_empty)
next
  case ne: False
  show ?thesis
  proof (cases "cache st (fingerprint cfg q ctx)")
    case None
    with ne show ?thesis by (simp add: route_miss)
  next
    case (Some e)
    with ne show ?thesis by (simp add: route_hit)
  qed
qed

lemma score_candidates_nth:
  assumes "j < length names"
  shows "score_candidates cfg tr feats t sim names ! j =
     \<lparr>model_name = names ! j,
      quality_score = derive_quality cfg feats (t (names ! j)) sim (names ! j),
      cost_score = min_max_normalize (map (\<lambda>n. derive_cost cfg (t n) n) names) ! j,
      latency_score = min_max_normalize (map (\<lambda>n. derive_latency cfg (t n) n) names) ! j,
      overall_score = overall (tier_weight tr)
         (derive_quality cfg feats (t (names ! j)) sim (names ! j))
         (min_max_normalize (map (\<lambda>n. derive_cost cfg (t n) n) names) ! j)
         (min_max_normalize (map (\<lambda>n. derive_latency cfg (t n) n) names) ! j),
      metadata = None\<rparr>"
  using assms by (simp add: score_candidates_def Let_def length_min_max_normalize)

lemma score_candidates_names:
  "map model_name (score_candidates cfg tr feats t sim names) = names"
  by (rule nth_equalityI) (simp_all add: length_score_candidates score_candidates_nth)

lemma score_candidates_tracker_cong:
  assumes "\<forall>n \<in> set names. t n = t' n"
  shows "score_candidates cfg tr feats t sim names = score_candidates cfg tr feats t' sim names"
proof -
  have q: "map (\<lambda>n. derive_quality cfg feats (t n) sim n) names =
           map (\<lambda>n. derive_quality cfg feats (t' n) sim n) names"
    using assms by (simp cong: map_cong)
  have c: "map (\<lambda>n. derive_cost cfg (t n) n) names = map (\<lambda>n. derive_cost cfg (t' n) n) names"
    using assms by (simp cong: map_cong)
  have l: "map (\<lambda>n. derive_latency cfg (t n) n) names = map (\<lambda>n. derive_latency cfg (t' n) n) names"
    using assms by (simp cong: map_cong)
  show ?thesis
    unfolding score_candidates_def q c l ..
qed

lemma route_independent:
  assumes mu: "map_option model_used (cache st (fingerprint cfg q ctx)) =
               map_option model_used (cache st' (fingerprint cfg q ctx))"
    and tr: "\<forall>n \<in> set cands. t n = t' n"
  shows "fst (route cfg t sim q u tr ctx cands st) = fst (route cfg t' sim q u' tr ctx cands st')"
proof (cases "cands = []")
  case True
  then show ?thesis by (simp add: route_empty)
next
  case ne: False
  show ?thesis
  proof (cases "cache st (fingerprint cfg q ctx)")
    case None
    with mu have "cache st' (fingerprint cfg q ctx) = None" by simp
    have "score_candidates cfg tr (extract' cfg q) t sim cands =
          score_candidates cfg tr (extract' cfg q) t' sim cands"
      using tr by (rule score_candidates_tracker_cong)
    with None ne \<open>cache st' (fingerprint cfg q ctx) = None\<close> show ?thesis
      by (simp add: route_miss)
  next
    case (Some e)
    with mu obtain e' where e': "cache st' (fingerprint cfg q ctx) = Some e'"
        and same: "model_used e' = model_used e"
      by (cases "cache st' (fingerprint cfg q ctx)") auto
    with Some ne show ?thesis
      by (simp add: route_hit)
  qed
qed

lemmas engine_defs = route_def lookup_def decide_def score_candidates_def
  min_max_normalize_def overall_def margin_confidence_def candidate_dict_def
  RoutingDecision_init_def check_ge_le_def check_ge_def check_le_def Let_def

subsection \<open>The claims about route\<close>

text \<open>
  C1. A call of route with an empty candidate set fails with NoEligibleModelsError,
  whatever the other arguments and the state (cache and tracker included): it returns
  no RoutingDecision, substitutes no model, and leaves the state as it was.
\<close>

theorem route_empty_candidates_fatal:
  "route cfg t sim q u tr ctx [] st = (Inl NoEligibleModelsError, st)"
  by (simp add: route_def)

text \<open>
  C2. With configuration, tier, query, context and candidates fixed, route returns the
  same result (same selected_model, same confidence, or the same error)
  \<^item> when it is called a second time with the same arguments on the state the first
    call left, where hit counts and the scoring counter have changed;
  \<^item> from any two states whose caches hold, under the fingerprint of the call, entries
    of the same model_used (or both none), with any two trackers that agree on the
    candidates, and for any two users: nothing else is read.

  When the candidates are scored (a non-empty set, a cache miss, not every quality
  below the threshold), the scored list names the candidates in declaration order,
  the call returns a decision without fallback, and the selected model is the
  candidate \<open>cands ! i\<close> at the first position of maximal overall_score: no
  candidate scores higher, and every candidate declared before it scores strictly
  lower.
\<close>

theorem route_deterministic:
  "fst (route cfg t sim q u tr ctx cands (snd (route cfg t sim q u tr ctx cands st))) =
     fst (route cfg t sim q u tr ctx cands st) \<and>
   (map_option model_used (cache st (fingerprint cfg q ctx)) =
      map_option model_used (cache st' (fingerprint cfg q ctx)) \<and>
    (\<forall>n \<in> set cands. t n = t' n) \<longrightarrow>
    fst (route cfg t sim q u tr ctx cands st) = fst (route cfg t' sim q u' tr ctx cands st')) \<and>
   (cands \<noteq> [] \<and> cache st (fingerprint cfg q ctx) = None \<and>
    \<not> list_all (\<lambda>c. quality_score c < min_quality cfg)
         (score_candidates cfg tr (extract' cfg q) t sim cands) \<longrightarrow>
    map model_name (score_candidates cfg tr (extract' cfg q) t sim cands) = cands \<and>
    (\<exists>d i. fst (route cfg t sim q u tr ctx cands st) = Inr d \<and>
       i < length cands \<and>
       selected_model d = cands ! i \<and>
       fallback d = False \<and>
       (\<forall>j < length cands.
          overall_score (score_candidates cfg tr (extract' cfg q) t sim cands ! j)
            \<le> overall_score (score_candidates cfg tr (extract' cfg q) t sim cands ! i)) \<and>
       (\<forall>j < i.
          overall_score (score_candidates cfg tr (extract' cfg q) t sim cands ! j)
            < overall_score (score_candidates cfg tr (extract' cfg q) t sim cands ! i))))"
proof (intro conjI impI)
  show "fst (route cfg t sim q u tr ctx cands (snd (route cfg t sim q u tr ctx cands st))) =
     fst (route cfg t sim q u tr ctx cands st)"
    by (rule route_again)
next
  assume "map_option model_used (cache st (fingerprint cfg q ctx)) =
      map_option model_used (cache st' (fingerprint cfg q ctx)) \<and>
    (\<forall>n \<in> set cands. t n = t' n)"
  then show "fst (route cfg t sim q u tr ctx cands st) = fst (route cfg t' sim q u' tr ctx cands st')"
    by (simp add: route_independent)
next
  show "map model_name (score_candidates cfg tr (extract' cfg q) t sim cands) = cands"
    by (rule score_candidates_names)
next
  let ?scored = "score_candidates cfg tr (extract' cfg q) t sim cands"
  let ?scores = "map overall_score ?scored"
  let ?i = "best_index ?scores"
  assume h: "cands \<noteq> [] \<and> cache st (fingerprint cfg q ctx) = None \<and>
    \<not> list_all (\<lambda>c. quality_score c < min_quality cfg) ?scored"
  then have r: "fst (route cfg t sim q u tr ctx cands st) = decide cfg tr ?scored"
    by (simp add: route_miss)
  from h obtain d where d: "decide cfg tr ?scored = Inr d"
      and fb: "fallback d = False"
      and sel: "selected_model d = model_name (?scored ! ?i)"
    using decide_scored by blast
  have len: "length ?scores = length cands"
    by (simp add: length_score_candidates)
  have ne: "?scores \<noteq> []"
  proof
    assume "?scores = []"
    then have "length ?scores = 0"
      by (simp only: list.size)
    with len h show False
      by simp
  qed
  have ilt: "?i < length cands"
    using best_index_less [OF ne] len by simp
  from ilt have "model_name (?scored ! ?i) = cands ! ?i"
    by (simp add: score_candidates_nth)
  with sel have sel': "selected_model d = cands ! ?i"
    by simp
  have mx: "\<forall>j < length cands. overall_score (?scored ! j) \<le> overall_score (?scored ! ?i)"
  proof (intro allI impI)
    fix j assume j: "j < length cands"
    with len have "?scores ! j \<le> ?scores ! ?i"
      using best_index_max [of j ?scores] by simp
    with j ilt len show "overall_score (?scored ! j) \<le> overall_score (?scored ! ?i)"
      by simp
  qed
  have fs: "\<forall>j < ?i. overall_score (?scored ! j) < overall_score (?scored ! ?i)"
  proof (intro allI impI)
    fix j assume j: "j < ?i"
    then have "?scores ! j < ?scores ! ?i"
      by (rule best_index_first)
    with j ilt len show "overall_score (?scored ! j) < overall_score (?scored ! ?i)"
      by simp
  qed
  from r d have rd: "fst (route cfg t sim q u tr ctx cands st) = Inr d"
    by simp
  show "\<exists>d i. fst (route cfg t sim q u tr ctx cands st) = Inr d \<and>
       i < length cands \<and>
       selected_model d = cands ! i \<and>
       fallback d = False \<and>
       (\<forall>j < length cands. overall_score (?scored ! j) \<le> overall_score (?scored ! i)) \<and>
       (\<forall>j < i. overall_score (?scored ! j) < overall_score (?scored ! i))"
    apply (rule exI [of _ d])
    apply (rule exI [of _ ?i])
    apply (intro conjI)
         apply (rule rd)
        apply (rule ilt)
       apply (rule sel')
      apply (rule fb)
     apply (rule mx)
    apply (rule fs)
    done
qed

theorem route_deterministic_witness:
  "map overall_score
     (score_candidates example_config Enterprise (extract' example_config ''hello'')
        Map.empty None [''modelC'', ''modelB'']) = [1/2, 1/2] \<and>
   map_sum id selected_model
     (fst (route example_config Map.empty None ''hello'' ''u'' Enterprise None
             [''modelC'', ''modelB''] empty_state)) = Inr ''modelC'' \<and>
   map_sum id selected_model
     (fst (route example_config Map.empty None ''hello'' ''u'' Enterprise None
             [''modelB'', ''modelC''] empty_state)) = Inr ''modelB'' \<and>
   map_sum id (\<lambda>d. (selected_model d, confidence d))
     (fst (route example_config Map.empty None ''hello'' ''u'' Free None
             [''modelA'', ''modelB''] empty_state)) = Inr (''modelB'', 4/5) \<and>
   (\<exists>d. fst (route example_config Map.empty None ''hello'' ''u'' Enterprise None
               [''modelC'', ''modelB''] empty_state) = Inr d \<and> selected_model d = ''modelC'') \<and>
   fst (route example_config Map.empty None ''hello'' ''u'' Free None [''modelA'', ''modelB'']
          (snd (route example_config Map.empty None ''hello'' ''u'' Free None
                  [''modelA'', ''modelB''] empty_state))) =
     fst (route example_config Map.empty None ''hello'' ''u'' Free None
            [''modelA'', ''modelB''] empty_state) \<and>
   fst (route example_config Map.empty None ''hello'' ''u'' Free None [''modelA'', ''modelB'']
          (snd (route example_config Map.empty None ''hello'' ''u'' Free None
                  [''modelA'', ''modelB''] cached_state))) =
     fst (route example_config Map.empty None ''hello'' ''u'' Free None
            [''modelA'', ''modelB''] cached_state) \<and>
   map_option model_used (cache cached_state (fingerprint example_config ''hello'' None)) =
     map_option model_used (cache later_state (fingerprint example_config ''hello'' None)) \<and>
   fst (route example_config Map.empty None ''hello'' ''u'' Free None
          [''modelA'', ''modelB''] cached_state) =
     fst (route example_config other_tracker None ''hello'' ''v'' Free None
            [''modelA'', ''modelB''] later_state)"
proof -
  note tie = route_deterministic [of example_config Map.empty None "''hello''" "''u''"
      Enterprise None "[''modelC'', ''modelB'']" empty_state empty_state Map.empty "''u''"]
  note miss2 = route_deterministic [of example_config Map.empty None "''hello''" "''u''"
      Free None "[''modelA'', ''modelB'']" empty_state empty_state Map.empty "''u''"]
  note hit2 = route_deterministic [of example_config Map.empty None "''hello''" "''u''"
      Free None "[''modelA'', ''modelB'']" cached_state later_state other_tracker "''v''"]
  have scores: "map overall_score
     (score_candidates example_config Enterprise (extract' example_config ''hello'')
        Map.empty None [''modelC'', ''modelB'']) = [1/2, 1/2]"
    by (simp add: engine_defs example_config_def)
  have c1: "map_sum id selected_model
     (fst (route example_config Map.empty None ''hello'' ''u'' Enterprise None
             [''modelC'', ''modelB''] empty_state)) = Inr ''modelC''"
    by (simp add: engine_defs example_config_def empty_state_def)
  have c2: "map_sum id selected_model
     (fst (route example_config Map.empty None ''hello'' ''u'' Enterprise None
             [''modelB'', ''modelC''] empty_state)) = Inr ''modelB''"
    by (simp add: engine_defs example_config_def empty_state_def)
  have c3: "map_sum id (\<lambda>d. (selected_model d, confidence d))
     (fst (route example_config Map.empty None ''hello'' ''u'' Free None
             [''modelA'', ''modelB''] empty_state)) = Inr (''modelB'', 4/5)"
    by (simp add: engine_defs example_config_def empty_state_def)
  have miss: "cache empty_state (fingerprint example_config ''hello'' None) = None"
    by (simp add: empty_state_def)
  have acceptable: "\<not> list_all (\<lambda>c. quality_score c < min_quality example_config)
       (score_candidates example_config Enterprise (extract' example_config ''hello'')
          Map.empty None [''modelC'', ''modelB''])"
    by (simp add: engine_defs example_config_def)
  from tie miss acceptable obtain d i where
      d: "fst (route example_config Map.empty None ''hello'' ''u'' Enterprise None
               [''modelC'', ''modelB''] empty_state) = Inr d"
      and "selected_model d = [''modelC'', ''modelB''] ! i"
    by blast
  with c1 have c4: "\<exists>d. fst (route example_config Map.empty None ''hello'' ''u'' Enterprise None
               [''modelC'', ''modelB''] empty_state) = Inr d \<and> selected_model d = ''modelC''"
    by simp
  from miss2 have c5: "fst (route example_config Map.empty None ''hello'' ''u'' Free None [''modelA'', ''modelB'']
          (snd (route example_config Map.empty None ''hello'' ''u'' Free None
                  [''modelA'', ''modelB''] empty_state))) =
     fst (route example_config Map.empty None ''hello'' ''u'' Free None
            [''modelA'', ''modelB''] empty_state)"
    by (rule conjunct1)
  from hit2 have c6: "fst (route example_config Map.empty None ''hello'' ''u'' Free None [''modelA'', ''modelB'']
          (snd (route example_config Map.empty None ''hello'' ''u'' Free None
                  [''modelA'', ''modelB''] cached_state))) =
     fst (route example_config Map.empty None ''hello'' ''u'' Free None
            [''modelA'', ''modelB''] cached_state)"
    by (rule conjunct1)
  have c7: "map_option model_used (cache cached_state (fingerprint example_config ''hello'' None)) =
     map_option model_used (cache later_state (fingerprint example_config ''hello'' None))"
    by (simp add: cached_state_def later_state_def example_config_def)
  have agree: "\<forall>n \<in> set [''modelA'', ''modelB'']. Map.empty n = other_tracker n"
    by (simp add: other_tracker_def)
  from hit2 c7 agree have c8: "fst (route example_config Map.empty None ''hello'' ''u'' Free None
          [''modelA'', ''modelB''] cached_state) =
     fst (route example_config other_tracker None ''hello'' ''v'' Free None
            [''modelA'', ''modelB''] later_state)"
    by blast
  from scores c1 c2 c3 c4 c5 c6 c7 c8 show ?thesis
    by (intro conjI)
qed

end
